theory Spec2Isabelle
  imports Main
begin

section \<open>Data model\<close>

text \<open>
  The audio recorder keeps its catalog in React component state and in one AsyncStorage
  entry; it talks to the capture/playback device, the file system, the secure store and
  the router through awaited platform calls. The embedding passes one explicit state
  through every operation: the component state of both providers, the persisted entries,
  the handles the device holds open, the notices shown, and the platform calls in the
  order they were made. What a platform call answers on one invocation of an operation
  is an input of that operation (record \<open>platform\<close>).
\<close>

datatype theme = light | dark

record settings =
  theme :: theme
  notifications :: bool
  cloudSync :: bool

text \<open>Interface \<open>User\<close> of AuthContext; its field \<open>id\<close> is \<open>id_user\<close> here.\<close>

record user =
  id_user :: string
  email :: string
  name :: string
  settings :: settings

text \<open>
  Interface \<open>Recording\<close> of AudioContext; its field \<open>id\<close> is \<open>id_rec\<close> here.
  \<open>duration\<close> is in milliseconds.
\<close>

record recording =
  id_rec :: string
  uri :: string
  duration :: int
  title :: string
  createdAt :: string
  userId :: string

text \<open>
  A persisted text, seen through \<open>JSON.parse\<close>: the empty string (falsy in a JavaScript
  condition), a text on which \<open>JSON.parse\<close> or the code that consumes its result throws,
  or the text \<open>JSON.stringify v\<close>, which parses back to \<open>v\<close>. A missing entry
  (\<open>getItem\<close> answering \<open>null\<close>) is \<open>None\<close> at the type \<open>'a stored option\<close>.
\<close>

datatype 'a stored = EmptyText | Unparsable | Json 'a

type_synonym handle = nat

record audio_mode =
  allowsRecordingIOS :: bool
  playsInSilentModeIOS :: bool

datatype call =
    GetItem string
  | SetItem string
  | RemoveItem string
  | SecureGet string
  | SecureSet string string
  | SecureDelete string
  | Navigate string
  | RequestPermissions
  | SetAudioMode bool bool
  | Prepare handle
  | Start handle
  | StopAndUnload handle
  | GetStatus handle
  | SoundStop handle
  | SoundUnload handle
  | SoundCreate string handle
  | FileDelete string bool

datatype error =
    StorageFailure
  | ParseFailure
  | DeviceFailure
  | FileFailure
  | NoRecordingURI
  | RecordingNotFound
  | FailedToSave

text \<open>
  The state: \<open>user\<close> and \<open>loading\<close> are the \<open>useState\<close> cells of AuthProvider, the
  next six those of AudioProvider; \<open>userToken\<close> is the SecureStore entry, \<open>userData\<close> and
  \<open>audioRecordings\<close> the two AsyncStorage entries; \<open>captures\<close> and \<open>sounds\<close> are the
  capture and sound handles the device holds open, \<open>fresh\<close> the next unused handle,
  \<open>mode\<close> the audio mode of the device; \<open>alerts\<close> collects the \<open>Alert.alert\<close> notices
  and \<open>calls\<close> the platform calls, oldest first. \<open>console.error\<close> is not modelled.
\<close>

record state =
  user :: "user option"
  loading :: bool
  recordings :: "recording list"
  currentRecording :: "handle option"
  isRecording :: bool
  currentSound :: "handle option"
  isPlaying :: bool
  currentPlayingId :: "string option"
  userToken :: "string option"
  userData :: "user stored option"
  audioRecordings :: "recording list stored option"
  captures :: "handle set"
  sounds :: "handle set"
  fresh :: handle
  mode :: audio_mode
  alerts :: "(string \<times> string) list"
  calls :: "call list"

text \<open>
  What the platform answers during one operation. A flag \<open>_ok\<close> is False when the
  awaited call rejects. \<open>permission\<close> is None when the request itself rejects, otherwise
  the \<open>granted\<close> field; \<open>capture_uri\<close> is the result of \<open>getURI()\<close>; \<open>durationMillis\<close>
  the field of the status (None when undefined); \<open>now\<close> is \<open>Date.now()\<close> and \<open>isoNow\<close>
  is \<open>new Date().toISOString()\<close>.
\<close>

record platform =
  get_ok :: bool
  set_ok :: bool
  remove_ok :: bool
  secure_get_ok :: bool
  secure_set_ok :: bool
  secure_delete_ok :: bool
  permission :: "bool option"
  set_mode_ok :: bool
  prepare_ok :: bool
  start_ok :: bool
  stop_unload_ok :: bool
  capture_uri :: "string option"
  get_status_ok :: bool
  durationMillis :: "int option"
  now :: nat
  isoNow :: string
  sound_stop_ok :: bool
  sound_unload_ok :: bool
  sound_create_ok :: bool
  file_delete_ok :: bool

type_synonym outcome = "(error \<times> state) + state"

section \<open>Platform calls\<close>

named_theorems prim \<open>definitions of the platform calls and of the control helpers\<close>

definition RECORDINGS_STORAGE_KEY :: string where
  [prim]: "RECORDINGS_STORAGE_KEY = ''audioRecordings''"

definition alert :: "string \<Rightarrow> string \<Rightarrow> state \<Rightarrow> state" where
  [prim]: "alert t m s = s\<lparr>alerts := alerts s @ [(t, m)]\<rparr>"

definition called :: "call \<Rightarrow> state \<Rightarrow> state" where
  [prim]: "called c s = s\<lparr>calls := calls s @ [c]\<rparr>"

text \<open>
  An awaited call: it is recorded, then either takes effect or rejects with \<open>e\<close>,
  leaving the state as it was at the call.
\<close>

definition await :: "call \<Rightarrow> bool \<Rightarrow> error \<Rightarrow> (state \<Rightarrow> state) \<Rightarrow> state \<Rightarrow> outcome" where
  [prim]: "await c ok e effect s = (if ok then Inr (effect (called c s)) else Inl (e, called c s))"

text \<open>Sequencing inside a \<open>try\<close> block: a throw skips the rest.\<close>

definition andThen :: "outcome \<Rightarrow> (state \<Rightarrow> outcome) \<Rightarrow> outcome" where
  [prim]: "andThen r f = (case r of Inl e \<Rightarrow> Inl e | Inr s \<Rightarrow> f s)"

text \<open>
  A JavaScript condition on a string or null, \<open>if (text) ...\<close>: null and the empty
  string are falsy; otherwise the branch runs with the text.
\<close>

fun truthy :: "'a stored option \<Rightarrow> 'a stored option" where
  "truthy None = None"
| "truthy (Some EmptyText) = None"
| "truthy (Some text) = Some text"

fun JSON_parse :: "'a stored \<Rightarrow> error + 'a" where
  "JSON_parse (Json v) = Inr v"
| "JSON_parse _ = Inl ParseFailure"

definition getItem_recordings :: "platform \<Rightarrow> state \<Rightarrow> outcome" where
  [prim]: "getItem_recordings p = await (GetItem RECORDINGS_STORAGE_KEY) (get_ok p) StorageFailure (\<lambda>s. s)"

definition setItem_recordings :: "platform \<Rightarrow> recording list \<Rightarrow> state \<Rightarrow> outcome" where
  [prim]: "setItem_recordings p v =
     await (SetItem RECORDINGS_STORAGE_KEY) (set_ok p) StorageFailure
       (\<lambda>s. s\<lparr>audioRecordings := Some (Json v)\<rparr>)"

definition setAudioModeAsync :: "platform \<Rightarrow> bool \<Rightarrow> bool \<Rightarrow> state \<Rightarrow> outcome" where
  [prim]: "setAudioModeAsync p rec silent =
     await (SetAudioMode rec silent) (set_mode_ok p) DeviceFailure
       (\<lambda>s. s\<lparr>mode := \<lparr>allowsRecordingIOS = rec, playsInSilentModeIOS = silent\<rparr>\<rparr>)"

definition prepareToRecordAsync :: "platform \<Rightarrow> handle \<Rightarrow> state \<Rightarrow> outcome" where
  [prim]: "prepareToRecordAsync p h =
     await (Prepare h) (prepare_ok p) DeviceFailure (\<lambda>s. s\<lparr>captures := insert h (captures s)\<rparr>)"

definition startAsync :: "platform \<Rightarrow> handle \<Rightarrow> state \<Rightarrow> outcome" where
  [prim]: "startAsync p h = await (Start h) (start_ok p) DeviceFailure (\<lambda>s. s)"

definition stopAndUnloadAsync :: "platform \<Rightarrow> handle \<Rightarrow> state \<Rightarrow> outcome" where
  [prim]: "stopAndUnloadAsync p h =
     await (StopAndUnload h) (stop_unload_ok p) DeviceFailure (\<lambda>s. s\<lparr>captures := captures s - {h}\<rparr>)"

definition getStatusAsync :: "platform \<Rightarrow> handle \<Rightarrow> state \<Rightarrow> outcome" where
  [prim]: "getStatusAsync p h = await (GetStatus h) (get_status_ok p) DeviceFailure (\<lambda>s. s)"

definition stopAsync :: "platform \<Rightarrow> handle \<Rightarrow> state \<Rightarrow> outcome" where
  [prim]: "stopAsync p h = await (SoundStop h) (sound_stop_ok p) DeviceFailure (\<lambda>s. s)"

definition unloadAsync :: "platform \<Rightarrow> handle \<Rightarrow> state \<Rightarrow> outcome" where
  [prim]: "unloadAsync p h =
     await (SoundUnload h) (sound_unload_ok p) DeviceFailure (\<lambda>s. s\<lparr>sounds := sounds s - {h}\<rparr>)"

text \<open>\<open>Audio.Sound.createAsync\<close>: the new sound object is the next unused handle.\<close>

definition createAsync :: "platform \<Rightarrow> string \<Rightarrow> state \<Rightarrow> outcome" where
  [prim]: "createAsync p u s =
     await (SoundCreate u (fresh s)) (sound_create_ok p) DeviceFailure
       (\<lambda>s'. s'\<lparr>sounds := insert (fresh s) (sounds s'), fresh := Suc (fresh s)\<rparr>) s"

text \<open>
  \<open>FileSystem.deleteAsync(uri, options)\<close>; the flag of the call is the option
  \<open>idempotent\<close>, with which a payload that is already absent is not an error.
\<close>

definition deleteAsync :: "platform \<Rightarrow> string \<Rightarrow> bool \<Rightarrow> state \<Rightarrow> outcome" where
  [prim]: "deleteAsync p u idempotent =
     await (FileDelete u idempotent) (file_delete_ok p) FileFailure (\<lambda>s. s)"

text \<open>\<open>Number.prototype.toString()\<close> of a non-negative integer: its decimal digits.\<close>

function show_nat :: "nat \<Rightarrow> string" where
  "show_nat n = (if n < 10 then [''0123456789'' ! n] else show_nat (n div 10) @ [''0123456789'' ! (n mod 10)])"
  by pat_completeness auto
termination
  by (relation "measure (\<lambda>n. n)") auto

declare show_nat.simps [simp del]

section \<open>The recording catalog store (AudioContext)\<close>

named_theorems ops \<open>definitions of the operations of the two providers\<close>

text \<open>
  \<open>rec.userId === user?.id\<close>: with no user the right-hand side is \<open>undefined\<close> and no
  recording matches.
\<close>

definition ownedBy :: "user option \<Rightarrow> recording \<Rightarrow> bool" where
  [prim]: "ownedBy u r = (Some (userId r) = map_option id_user u)"

definition loadRecordings_try :: "platform \<Rightarrow> state \<Rightarrow> outcome" where
  [ops]: "loadRecordings_try p s =
     andThen (getItem_recordings p s) (\<lambda>s1.
       case truthy (audioRecordings s1) of
         None \<Rightarrow> Inr s1
       | Some storedRecordings \<Rightarrow>
           (case JSON_parse storedRecordings of
              Inl e \<Rightarrow> Inl (e, s1)
            | Inr parsedRecordings \<Rightarrow>
                Inr (s1\<lparr>recordings := filter (ownedBy (user s1)) parsedRecordings\<rparr>)))"

definition loadRecordings :: "platform \<Rightarrow> state \<Rightarrow> state" where
  [ops]: "loadRecordings p s =
     (case loadRecordings_try p s of
        Inl (e, s') \<Rightarrow> alert ''Error'' ''Failed to load recordings'' s'
      | Inr s' \<Rightarrow> s')"

text \<open>The effect that loads on mount and when the user changes.\<close>

definition onUserChange :: "platform \<Rightarrow> state \<Rightarrow> state" where
  [ops]: "onUserChange p s = (if user s \<noteq> None then loadRecordings p s else s)"

definition saveRecordings_try :: "platform \<Rightarrow> recording list \<Rightarrow> state \<Rightarrow> outcome" where
  [ops]: "saveRecordings_try p updatedRecordings s =
     andThen (getItem_recordings p s) (\<lambda>s1.
       case (case truthy (audioRecordings s1) of
               None \<Rightarrow> Inr []
             | Some storedRecordings \<Rightarrow>
                 (case JSON_parse storedRecordings of
                    Inl e \<Rightarrow> Inl e
                  | Inr allRecordings \<Rightarrow> Inr (filter (\<lambda>r. \<not> ownedBy (user s1) r) allRecordings))) of
         Inl e \<Rightarrow> Inl (e, s1)
       | Inr otherUserRecordings \<Rightarrow>
           setItem_recordings p (otherUserRecordings @ updatedRecordings) s1)"

text \<open>The \<open>catch\<close> of \<open>saveRecordings\<close> rethrows as \<open>Failed to save recordings\<close>.\<close>

definition saveRecordings :: "platform \<Rightarrow> recording list \<Rightarrow> state \<Rightarrow> outcome" where
  [ops]: "saveRecordings p updatedRecordings s =
     (case saveRecordings_try p updatedRecordings s of
        Inl (e, s') \<Rightarrow> Inl (FailedToSave, s')
      | Inr s' \<Rightarrow> Inr s')"

section \<open>The recording session\<close>

definition startRecording_try :: "platform \<Rightarrow> state \<Rightarrow> outcome" where
  [ops]: "startRecording_try p s =
     (case permission p of
        None \<Rightarrow> Inl (DeviceFailure, called RequestPermissions s)
      | Some granted \<Rightarrow>
          (let s1 = called RequestPermissions s in
           if \<not> granted then
             Inr (alert ''Permission required'' ''Please grant microphone access to record audio.'' s1)
           else
             andThen (setAudioModeAsync p True True s1) (\<lambda>s2.
               let newRecording = fresh s2; s3 = s2\<lparr>fresh := Suc newRecording\<rparr> in
               andThen (prepareToRecordAsync p newRecording s3) (\<lambda>s4.
               andThen (startAsync p newRecording s4) (\<lambda>s5.
                 Inr (s5\<lparr>currentRecording := Some newRecording, isRecording := True\<rparr>))))))"

definition startRecording :: "platform \<Rightarrow> state \<Rightarrow> state" where
  [ops]: "startRecording p s =
     (case startRecording_try p s of
        Inl (e, s') \<Rightarrow> alert ''Error'' ''Failed to start recording'' s'
      | Inr s' \<Rightarrow> s')"

text \<open>\<open>status.durationMillis || 0\<close>.\<close>

definition measured :: "platform \<Rightarrow> int" where
  [prim]: "measured p = (case durationMillis p of None \<Rightarrow> 0 | Some d \<Rightarrow> d)"

text \<open>
  The object literal built in \<open>stopRecording\<close>, for the user \<open>u\<close>, the reference
  \<open>u1\<close> of the captured data and a catalog of \<open>n\<close> recordings.
\<close>

definition newRecording :: "platform \<Rightarrow> user \<Rightarrow> string \<Rightarrow> nat \<Rightarrow> recording" where
  "newRecording p u u1 n =
     \<lparr>id_rec = show_nat (now p),
      uri = u1,
      duration = measured p,
      title = ''Recording '' @ show_nat (n + 1),
      createdAt = isoNow p,
      userId = id_user u\<rparr>"

definition stopRecording_try :: "platform \<Rightarrow> state \<Rightarrow> outcome" where
  [ops]: "stopRecording_try p s =
     (case (currentRecording s, user s) of
        (Some h, Some u) \<Rightarrow>
          andThen (stopAndUnloadAsync p h s) (\<lambda>s1.
            case capture_uri p of
              None \<Rightarrow> Inl (NoRecordingURI, s1)
            | Some u1 \<Rightarrow>
                if u1 = [] then Inl (NoRecordingURI, s1)
                else
                  andThen (getStatusAsync p h s1) (\<lambda>s2.
                    let updatedRecordings =
                          recordings s2 @ [newRecording p u u1 (length (recordings s2))]
                    in andThen (saveRecordings p updatedRecordings (s2\<lparr>recordings := updatedRecordings\<rparr>))
                         (\<lambda>s3. Inr (s3\<lparr>currentRecording := None, isRecording := False\<rparr>))))
      | _ \<Rightarrow> Inr s)"

definition stopRecording :: "platform \<Rightarrow> state \<Rightarrow> state" where
  [ops]: "stopRecording p s =
     (case stopRecording_try p s of
        Inl (e, s') \<Rightarrow> alert ''Error'' ''Failed to stop recording'' s'
      | Inr s' \<Rightarrow> s')"

section \<open>The playback session\<close>

definition stopCurrent :: "platform \<Rightarrow> handle \<Rightarrow> state \<Rightarrow> outcome" where
  [ops]: "stopCurrent p h s = andThen (stopAsync p h s) (unloadAsync p h)"

definition playRecording_try :: "platform \<Rightarrow> string \<Rightarrow> state \<Rightarrow> outcome" where
  [ops]: "playRecording_try p recordingId s =
     andThen (case currentSound s of None \<Rightarrow> Inr s | Some h \<Rightarrow> stopCurrent p h s) (\<lambda>s1.
       case find (\<lambda>r. id_rec r = recordingId) (recordings s1) of
         None \<Rightarrow> Inl (RecordingNotFound, s1)
       | Some r \<Rightarrow>
           andThen (createAsync p (uri r) s1) (\<lambda>s2.
             Inr (s2\<lparr>currentSound := Some (fresh s1),
                     currentPlayingId := Some recordingId,
                     isPlaying := True\<rparr>)))"

definition playRecording :: "platform \<Rightarrow> string \<Rightarrow> state \<Rightarrow> state" where
  [ops]: "playRecording p recordingId s =
     (case playRecording_try p recordingId s of
        Inl (e, s') \<Rightarrow> alert ''Error'' ''Failed to play recording'' s'
      | Inr s' \<Rightarrow> s')"

text \<open>The callback registered with \<open>setOnPlaybackStatusUpdate\<close>, run by the device.\<close>

record playbackStatus =
  isLoaded :: bool
  status_isPlaying :: bool
  didJustFinish :: bool

definition onPlaybackStatusUpdate :: "playbackStatus \<Rightarrow> state \<Rightarrow> state" where
  [ops]: "onPlaybackStatusUpdate st s =
     (if isLoaded st then
        (let s1 = s\<lparr>isPlaying := status_isPlaying st\<rparr> in
         if didJustFinish st then s1\<lparr>currentPlayingId := None, isPlaying := False\<rparr> else s1)
      else s)"

definition stopPlaying_try :: "platform \<Rightarrow> state \<Rightarrow> outcome" where
  [ops]: "stopPlaying_try p s =
     (case currentSound s of
        None \<Rightarrow> Inr s
      | Some h \<Rightarrow>
          andThen (stopCurrent p h s) (\<lambda>s1.
            Inr (s1\<lparr>currentSound := None, currentPlayingId := None, isPlaying := False\<rparr>)))"

definition stopPlaying :: "platform \<Rightarrow> state \<Rightarrow> state" where
  [ops]: "stopPlaying p s =
     (case stopPlaying_try p s of
        Inl (e, s') \<Rightarrow> alert ''Error'' ''Failed to stop playback'' s'
      | Inr s' \<Rightarrow> s')"

section \<open>Delete and rename\<close>

definition deleteRecording_try :: "platform \<Rightarrow> string \<Rightarrow> state \<Rightarrow> outcome" where
  [ops]: "deleteRecording_try p recordingId s =
     (let s1 = (if currentPlayingId s = Some recordingId then stopPlaying p s else s) in
      case find (\<lambda>r. id_rec r = recordingId) (recordings s1) of
        None \<Rightarrow> Inr s1
      | Some r \<Rightarrow>
          andThen (deleteAsync p (uri r) True s1) (\<lambda>s2.
            let updatedRecordings = filter (\<lambda>r. id_rec r \<noteq> recordingId) (recordings s2)
            in saveRecordings p updatedRecordings (s2\<lparr>recordings := updatedRecordings\<rparr>)))"

definition deleteRecording :: "platform \<Rightarrow> string \<Rightarrow> state \<Rightarrow> state" where
  [ops]: "deleteRecording p recordingId s =
     (case deleteRecording_try p recordingId s of
        Inl (e, s') \<Rightarrow> alert ''Error'' ''Failed to delete recording'' s'
      | Inr s' \<Rightarrow> s')"



section \<open>The authentication session (AuthContext)\<close>

definition getItemAsync_token :: "platform \<Rightarrow> state \<Rightarrow> outcome" where
  [prim]: "getItemAsync_token p = await (SecureGet ''userToken'') (secure_get_ok p) StorageFailure (\<lambda>s. s)"

definition setItemAsync_token :: "platform \<Rightarrow> string \<Rightarrow> state \<Rightarrow> outcome" where
  [prim]: "setItemAsync_token p v =
     await (SecureSet ''userToken'' v) (secure_set_ok p) StorageFailure (\<lambda>s. s\<lparr>userToken := Some v\<rparr>)"

definition deleteItemAsync_token :: "platform \<Rightarrow> state \<Rightarrow> outcome" where
  [prim]: "deleteItemAsync_token p =
     await (SecureDelete ''userToken'') (secure_delete_ok p) StorageFailure (\<lambda>s. s\<lparr>userToken := None\<rparr>)"

definition getItem_userData :: "platform \<Rightarrow> state \<Rightarrow> outcome" where
  [prim]: "getItem_userData p = await (GetItem ''userData'') (get_ok p) StorageFailure (\<lambda>s. s)"

definition setItem_userData :: "platform \<Rightarrow> user \<Rightarrow> state \<Rightarrow> outcome" where
  [prim]: "setItem_userData p v =
     await (SetItem ''userData'') (set_ok p) StorageFailure (\<lambda>s. s\<lparr>userData := Some (Json v)\<rparr>)"

definition removeItem_userData :: "platform \<Rightarrow> state \<Rightarrow> outcome" where
  [prim]: "removeItem_userData p =
     await (RemoveItem ''userData'') (remove_ok p) StorageFailure (\<lambda>s. s\<lparr>userData := None\<rparr>)"

text \<open>\<open>router.replace(path)\<close>.\<close>

definition replace_route :: "string \<Rightarrow> state \<Rightarrow> state" where
  [prim]: "replace_route path = called (Navigate path)"

definition checkAuthState_try :: "platform \<Rightarrow> state \<Rightarrow> outcome" where
  [ops]: "checkAuthState_try p s =
     andThen (getItemAsync_token p s) (\<lambda>s1.
       case userToken s1 of
         None \<Rightarrow> Inr (replace_route ''/login'' s1)
       | Some token \<Rightarrow>
           if token = [] then Inr (replace_route ''/login'' s1)
           else
             andThen (getItem_userData p s1) (\<lambda>s2.
               case truthy (userData s2) of
                 None \<Rightarrow> Inr s2
               | Some text \<Rightarrow>
                   (case JSON_parse text of
                      Inl e \<Rightarrow> Inl (e, s2)
                    | Inr u \<Rightarrow> Inr (replace_route ''/(tabs)'' (s2\<lparr>user := Some u\<rparr>)))))"

text \<open>The \<open>catch\<close> only logs; \<open>finally\<close> clears \<open>loading\<close> on every path.\<close>

definition checkAuthState :: "platform \<Rightarrow> state \<Rightarrow> state" where
  [ops]: "checkAuthState p s =
     (case checkAuthState_try p s of
        Inl (e, s') \<Rightarrow> s'\<lparr>loading := False\<rparr>
      | Inr s' \<Rightarrow> s'\<lparr>loading := False\<rparr>)"

text \<open>\<open>email.split('@')[0]\<close>: the text before the first \<open>@\<close>, all of it when there is none.\<close>

definition localPart :: "string \<Rightarrow> string" where
  [prim]: "localPart e = takeWhile (\<lambda>c. c \<noteq> CHR ''@'') e"

definition defaultSettings :: settings where
  [prim]: "defaultSettings = \<lparr>theme = light, notifications = True, cloudSync = False\<rparr>"

text \<open>
  \<open>login\<close>, \<open>register\<close>, \<open>logout\<close> and \<open>updateUserSettings\<close> have no \<open>try\<close>: a rejected
  storage call rejects the operation, with the state as it was at that call.
\<close>

definition login :: "platform \<Rightarrow> string \<Rightarrow> string \<Rightarrow> state \<Rightarrow> outcome" where
  [ops]: "login p email_in password s =
     (let userData_new =
            \<lparr>id_user = ''user123'', email = email_in, name = localPart email_in,
             settings = defaultSettings\<rparr>
      in andThen (setItemAsync_token p ''dummy-token'' s) (\<lambda>s1.
         andThen (setItem_userData p userData_new s1) (\<lambda>s2.
           Inr (s2\<lparr>user := Some userData_new\<rparr>))))"

definition register :: "platform \<Rightarrow> string \<Rightarrow> string \<Rightarrow> string \<Rightarrow> state \<Rightarrow> outcome" where
  [ops]: "register p email_in password name_in s =
     (let userData_new =
            \<lparr>id_user = ''user'' @ show_nat (now p), email = email_in, name = name_in,
             settings = defaultSettings\<rparr>
      in andThen (setItemAsync_token p ''dummy-token'' s) (\<lambda>s1.
         andThen (setItem_userData p userData_new s1) (\<lambda>s2.
           Inr (s2\<lparr>user := Some userData_new\<rparr>))))"

definition logout :: "platform \<Rightarrow> state \<Rightarrow> outcome" where
  [ops]: "logout p s =
     andThen (deleteItemAsync_token p s) (\<lambda>s1.
     andThen (removeItem_userData p s1) (\<lambda>s2.
       Inr (replace_route ''/login'' (s2\<lparr>user := None\<rparr>))))"

definition updateUserSettings :: "platform \<Rightarrow> settings \<Rightarrow> state \<Rightarrow> outcome" where
  [ops]: "updateUserSettings p settings_in s =
     (case user s of
        None \<Rightarrow> Inr s
      | Some u \<Rightarrow>
          (let updatedUser = u\<lparr>settings := settings_in\<rparr>
           in andThen (setItem_userData p updatedUser s) (\<lambda>s1. Inr (s1\<lparr>user := Some updatedUser\<rparr>))))"

section \<open>Start-up and the states of the two sessions\<close>

text \<open>
  A start of the application over given persisted entries: every \<open>useState\<close> cell has
  its initial value, the device holds no handle, nothing has been shown or called yet.
\<close>

definition startup ::
  "string option \<Rightarrow> user stored option \<Rightarrow> recording list stored option \<Rightarrow> state" where
  [prim]: "startup token profile blob =
     \<lparr>user = None, loading = True, recordings = [], currentRecording = None,
      isRecording = False, currentSound = None, isPlaying = False, currentPlayingId = None,
      userToken = token, userData = profile, audioRecordings = blob,
      captures = {}, sounds = {}, fresh = 0,
      mode = \<lparr>allowsRecordingIOS = False, playsInSilentModeIOS = False\<rparr>,
      alerts = [], calls = []\<rparr>"

text \<open>The next start after state \<open>s\<close>: only the persisted entries survive.\<close>

definition restart :: "state \<Rightarrow> state" where
  [prim]: "restart s = startup (userToken s) (userData s) (audioRecordings s)"

text \<open>The states of the spec's three state machines, read off the component state.\<close>

definition Unauthenticated :: "state \<Rightarrow> bool" where
  [prim]: "Unauthenticated s = (user s = None)"

definition captureIdle :: "state \<Rightarrow> bool" where
  [prim]: "captureIdle s = (currentRecording s = None \<and> \<not> isRecording s)"

definition playbackIdle :: "state \<Rightarrow> bool" where
  [prim]: "playbackIdle s = (currentSound s = None \<and> currentPlayingId s = None \<and> \<not> isPlaying s)"

text \<open>A platform on which every call succeeds, for a capture of 1500 ms.\<close>

definition allOk :: platform where
  [prim]: "allOk =
     \<lparr>get_ok = True, set_ok = True, remove_ok = True, secure_get_ok = True,
      secure_set_ok = True, secure_delete_ok = True, permission = Some True,
      set_mode_ok = True, prepare_ok = True, start_ok = True, stop_unload_ok = True,
      capture_uri = Some ''file:///cache/recording-1.m4a'', get_status_ok = True,
      durationMillis = Some 1500, now = 1700000000000, isoNow = ''2023-11-14T22:13:20.000Z'',
      sound_stop_ok = True, sound_unload_ok = True, sound_create_ok = True,
      file_delete_ok = True\<rparr>"

definition alice :: user where
  [prim]: "alice = \<lparr>id_user = ''user1'', email = ''a@x.com'', name = ''a'', settings = defaultSettings\<rparr>"

definition bob :: user where
  [prim]: "bob = \<lparr>id_user = ''user2'', email = ''b@x.com'', name = ''b'', settings = defaultSettings\<rparr>"

definition take1 :: recording where
  [prim]: "take1 =
     \<lparr>id_rec = ''1700000000000'', uri = ''file:///cache/recording-1.m4a'', duration = 1500,
      title = ''Recording 1'', createdAt = ''2023-11-14T22:13:20.000Z'', userId = ''user1''\<rparr>"

definition take2 :: recording where
  [prim]: "take2 =
     \<lparr>id_rec = ''1700000005000'', uri = ''file:///cache/recording-2.m4a'', duration = 900,
      title = ''Recording 2'', createdAt = ''2023-11-14T22:13:25.000Z'', userId = ''user1''\<rparr>"

definition theirs :: recording where
  [prim]: "theirs =
     \<lparr>id_rec = ''1700000009000'', uri = ''file:///cache/recording-3.m4a'', duration = 40,
      title = ''Recording 1'', createdAt = ''2023-11-14T22:13:29.000Z'', userId = ''user2''\<rparr>"

text \<open>Alice signed in over an empty store, with nothing recorded yet.\<close>

definition signedIn :: state where
  [prim]: "signedIn = (startup None None None)\<lparr>user := Some alice, loading := False\<rparr>"

section \<open>The store's contract\<close>

text \<open>
  The spec's \<open>saveForUser(userId, recordings)\<close> and \<open>loadForUser(userId)\<close> are
  \<open>saveRecordings\<close> and \<open>loadRecordings\<close> run in the session of that user: the user is
  the one the provider reads from \<open>useAuth()\<close>, and what a load returns is the catalog it
  leaves in \<open>recordings\<close>.
\<close>

definition saveForUser :: "platform \<Rightarrow> user \<Rightarrow> recording list \<Rightarrow> state \<Rightarrow> outcome" where
  "saveForUser p u rs s = saveRecordings p rs (s\<lparr>user := Some u\<rparr>)"

definition loadForUser :: "platform \<Rightarrow> user \<Rightarrow> state \<Rightarrow> recording list" where
  "loadForUser p u s = recordings (loadRecordings p (s\<lparr>user := Some u\<rparr>))"

text \<open>The state an operation leaves, whether it returned or threw.\<close>

definition settled :: "outcome \<Rightarrow> state" where
  "settled r = (case r of Inl (e, s) \<Rightarrow> s | Inr s \<Rightarrow> s)"

text \<open>A sequence of saves, each by the user named with it, in order.\<close>

fun saveAll :: "platform \<Rightarrow> (user \<times> recording list) list \<Rightarrow> state \<Rightarrow> state" where
  "saveAll p [] s = s"
| "saveAll p ((u, rs) # rest) s = saveAll p rest (settled (saveForUser p u rs s))"

text \<open>What the user with id \<open>uid\<close> saved last in such a sequence, if anything.\<close>

fun lastSavedBy :: "string \<Rightarrow> (user \<times> recording list) list \<Rightarrow> recording list option" where
  "lastSavedBy uid [] = None"
| "lastSavedBy uid ((u, rs) # rest) =
     (case lastSavedBy uid rest of
        Some later \<Rightarrow> Some later
      | None \<Rightarrow> if id_user u = uid then Some rs else None)"

text \<open>The recordings a persisted entry holds, and those of them that belong to a user.\<close>

fun entries :: "recording list stored option \<Rightarrow> recording list" where
  "entries (Some (Json rs)) = rs"
| "entries _ = []"

definition persistedFor :: "user \<Rightarrow> state \<Rightarrow> recording list" where
  "persistedFor u s = filter (ownedBy (Some u)) (entries (audioRecordings s))"

section \<open>Open sound handles\<close>

text \<open>The sound handles open after a platform call that succeeded, given those open before.\<close>

fun openAfter :: "call \<Rightarrow> handle set \<Rightarrow> handle set" where
  "openAfter (SoundCreate u h) S = insert h S"
| "openAfter (SoundUnload h) S = S - {h}"
| "openAfter c S = S"

text \<open>Every sound handle the device holds open is the one the provider tracks.\<close>

definition tracked :: "state \<Rightarrow> bool" where
  "tracked s = (sounds s \<subseteq> set_option (currentSound s))"

text \<open>Alice with two recordings, the first of them playing on sound handle 0.\<close>

definition nowPlaying :: state where
  [prim]: "nowPlaying =
     signedIn\<lparr>recordings := [take1, take2], currentSound := Some 0, isPlaying := True,
              currentPlayingId := Some ''1700000000000'',
              audioRecordings := Some (Json [theirs, take1, take2]),
              sounds := {0}, fresh := 1,
              calls := [SoundCreate ''file:///cache/recording-1.m4a'' 0]\<rparr>"

section \<open>Sessions, failures and renaming\<close>


text \<open>Alice signed in over a persisted catalog that does not parse.\<close>

definition corrupted :: state where
  "corrupted = (startup None None (Some Unparsable))\<lparr>user := Some alice, loading := False\<rparr>"


section \<open>Handlers and renders\<close>

text \<open>
  The handlers are closures of one render of the provider: inside a handler, \<open>user\<close>,
  \<open>recordings\<close>, \<open>currentRecording\<close>, \<open>currentSound\<close>, \<open>currentPlayingId\<close> and the
  two flags are the values that render saw, while the store, the device and the file
  system are live. An operation of this theory is a handler of a render that has seen the
  state it runs on. \<open>seenFrom r s\<close> is the state a handler of an earlier render \<open>r\<close>
  runs on once the live state is \<open>s\<close>: it arises when the handler is invoked again
  before the provider has rendered \<open>s\<close>, as on a second tap.
\<close>

definition seenFrom :: "state \<Rightarrow> state \<Rightarrow> state" where
  "seenFrom r s =
     s\<lparr>user := user r, loading := loading r, recordings := recordings r,
       currentRecording := currentRecording r, isRecording := isRecording r,
       currentSound := currentSound r, isPlaying := isPlaying r,
       currentPlayingId := currentPlayingId r\<rparr>"

text \<open>Alice with her two recordings persisted and nothing playing.\<close>

definition withTwo :: state where
  "withTwo =
     signedIn\<lparr>recordings := [take1, take2],
              audioRecordings := Some (Json [theirs, take1, take2])\<rparr>"

text \<open>
  A second user, as \<open>register\<close> builds it at \<open>Date.now() = 1700000003000\<close>, the platform
  of that call, and the platform of a second capture, of 900 ms.
\<close>

definition carol :: user where
  "carol =
     \<lparr>id_user = ''user1700000003000'', email = ''c@x.com'', name = ''c'',
      settings = defaultSettings\<rparr>"

definition atRegister :: platform where
  "atRegister = allOk\<lparr>now := 1700000003000\<rparr>"

definition secondCapture :: platform where
  "secondCapture =
     allOk\<lparr>capture_uri := Some ''file:///cache/recording-2.m4a'', durationMillis := Some 900,
           now := 1700000005000, isoNow := ''2023-11-14T22:13:25.000Z''\<rparr>"

text \<open>The recording of that capture when Carol stops it over a catalog of one.\<close>

definition carols :: recording where
  "carols = take2\<lparr>userId := ''user1700000003000''\<rparr>"

text \<open>
  A run on one device: Alice records a take and logs out; Carol registers, and the load
  for her fails at \<open>getItem\<close>; Carol records a take of her own.
\<close>

definition aliceRecorded :: state where
  "aliceRecorded = stopRecording allOk (startRecording allOk signedIn)"

definition carolSignedIn :: state where
  "carolSignedIn =
     onUserChange (allOk\<lparr>get_ok := False\<rparr>)
       (settled (register atRegister ''c@x.com'' ''pw'' ''c''
          (settled (logout allOk aliceRecorded))))"

definition carolRecorded :: state where
  "carolRecorded = stopRecording secondCapture (startRecording secondCapture carolSignedIn)"

section \<open>Frame properties of stop and delete\<close>

text \<open>
  C5. With no active capture handle, \<open>stopRecording\<close> returns at its first line: the
  whole state is as before, so the recording session, the catalog and the persisted
  entry are untouched, no platform call is made and no notice is shown.
\<close>

theorem stopRecording_without_capture:
  "currentRecording s = None \<Longrightarrow> stopRecording p s = s"
  by (simp add: stopRecording_def stopRecording_try_def)

theorem stopRecording_without_capture_witness:
  "currentRecording signedIn = None \<and> stopRecording allOk signedIn = signedIn"
  using stopRecording_without_capture [of signedIn allOk]
  by (simp add: signedIn_def startup_def)

text \<open>
  C10. An id that is neither the playing one nor in the catalog: \<open>deleteRecording\<close>
  skips \<open>stopPlaying\<close>, finds nothing and returns. The whole state is unchanged: no
  notice (so no NotFound is raised), no call to the file system or the store, the same
  catalog and the same persisted entry.
\<close>

theorem deleteRecording_absent:
  assumes "find (\<lambda>r. id_rec r = recordingId) (recordings s) = None"
    and "currentPlayingId s \<noteq> Some recordingId"
  shows "deleteRecording p recordingId s = s"
  using assms by (simp add: deleteRecording_def deleteRecording_try_def)

theorem deleteRecording_absent_witness:
  "find (\<lambda>r. id_rec r = ''42'') (recordings (signedIn\<lparr>recordings := [take1]\<rparr>)) = None
   \<and> currentPlayingId (signedIn\<lparr>recordings := [take1]\<rparr>) \<noteq> Some ''42''
   \<and> deleteRecording allOk ''42'' (signedIn\<lparr>recordings := [take1]\<rparr>)
       = signedIn\<lparr>recordings := [take1]\<rparr>"
  using deleteRecording_absent [of "''42''" "signedIn\<lparr>recordings := [take1]\<rparr>" allOk]
  by (simp add: signedIn_def startup_def take1_def)

section \<open>Round trip and isolation of the store\<close>

lemma ownedBy_Some: "ownedBy (Some v) = (\<lambda>r. userId r = id_user v)"
  by (simp add: fun_eq_iff ownedBy_def)

text \<open>
  One save over a readable store: the entry is read, the saver's recordings in it are
  dropped, the saved ones are appended, and the result is written back.
\<close>

lemma saveForUser_blob:
  assumes "get_ok p" "set_ok p" "audioRecordings s \<noteq> Some Unparsable"
  shows "saveForUser p u rs s =
     Inr (s\<lparr>user := Some u,
            calls := calls s @ [GetItem RECORDINGS_STORAGE_KEY, SetItem RECORDINGS_STORAGE_KEY],
            audioRecordings :=
              Some (Json (filter (\<lambda>r. \<not> ownedBy (Some u) r) (entries (audioRecordings s)) @ rs))\<rparr>)"
proof (cases "audioRecordings s")
  case None
  with assms show ?thesis
    by (simp add: saveForUser_def saveRecordings_def saveRecordings_try_def
        getItem_recordings_def setItem_recordings_def await_def andThen_def called_def)
next
  case (Some t)
  with assms show ?thesis
    by (cases t)
       (simp_all add: saveForUser_def saveRecordings_def saveRecordings_try_def
          getItem_recordings_def setItem_recordings_def await_def andThen_def called_def)
qed

lemma persistedFor_save:
  assumes "get_ok p" "set_ok p" "audioRecordings s \<noteq> Some Unparsable"
    and "\<forall>r \<in> set rs. userId r = id_user u"
  shows "persistedFor v (settled (saveForUser p u rs s)) =
     (if id_user v = id_user u then rs else persistedFor v s)"
proof -
  have own: "filter (ownedBy (Some v)) rs = (if id_user v = id_user u then rs else [])"
    using assms(4) by (auto simp: ownedBy_Some filter_empty_conv intro: filter_True)
  have others: "filter (ownedBy (Some v)) (filter (\<lambda>r. \<not> ownedBy (Some u) r) xs) =
      (if id_user v = id_user u then [] else filter (ownedBy (Some v)) xs)" for xs
    by (induction xs) (simp_all add: ownedBy_Some)
  show ?thesis
    by (simp add: saveForUser_blob [OF assms(1-3)] settled_def persistedFor_def own others
        del: filter_filter)
qed

lemma saveForUser_readable:
  assumes "get_ok p" "set_ok p" "audioRecordings s \<noteq> Some Unparsable"
  shows "\<exists>xs. audioRecordings (settled (saveForUser p u rs s)) = Some (Json xs)"
  by (simp add: saveForUser_blob [OF assms] settled_def)

lemma saveAll_readable:
  assumes "get_ok p" "set_ok p"
  shows "audioRecordings s \<noteq> Some Unparsable \<Longrightarrow> ops \<noteq> [] \<Longrightarrow>
     \<exists>xs. audioRecordings (saveAll p ops s) = Some (Json xs)"
proof (induction ops arbitrary: s)
  case Nil
  then show ?case by simp
next
  case (Cons a ops)
  obtain u rs where a: "a = (u, rs)" by (cases a)
  from saveForUser_readable [OF assms Cons.prems(1)] obtain xs where
    xs: "audioRecordings (settled (saveForUser p u rs s)) = Some (Json xs)" by blast
  show ?case
  proof (cases ops)
    case Nil
    then show ?thesis using xs a by simp
  next
    case (Cons b list)
    then show ?thesis using Cons.IH [of "settled (saveForUser p u rs s)"] xs a by simp
  qed
qed

lemma persistedFor_saveAll:
  assumes "get_ok p" "set_ok p"
  shows "audioRecordings s \<noteq> Some Unparsable \<Longrightarrow>
     \<forall>(u, rs) \<in> set ops. \<forall>r \<in> set rs. userId r = id_user u \<Longrightarrow>
     persistedFor v (saveAll p ops s) =
       (case lastSavedBy (id_user v) ops of Some rs \<Rightarrow> rs | None \<Rightarrow> persistedFor v s)"
proof (induction ops arbitrary: s)
  case Nil
  then show ?case by simp
next
  case (Cons a ops)
  obtain u rs where a: "a = (u, rs)" by (cases a)
  let ?s = "settled (saveForUser p u rs s)"
  have own: "\<forall>r \<in> set rs. userId r = id_user u" using Cons.prems(2) a by simp
  have rest: "\<forall>(u, rs) \<in> set ops. \<forall>r \<in> set rs. userId r = id_user u"
    using Cons.prems(2) by simp
  have readable: "audioRecordings ?s \<noteq> Some Unparsable"
    using saveForUser_readable [OF assms Cons.prems(1), of u rs] by auto
  show ?case
    using Cons.IH [OF readable rest] persistedFor_save [OF assms Cons.prems(1) own, of v]
    by (simp add: a split: option.splits)
qed

lemma loadForUser_readable:
  assumes "get_ok p" "audioRecordings s = Some (Json xs)"
  shows "loadForUser p v s = persistedFor v s"
  using assms
  by (simp add: loadForUser_def persistedFor_def loadRecordings_def loadRecordings_try_def
      getItem_recordings_def await_def andThen_def called_def)

text \<open>
  C1, amended. Any sequence of completed saves by any users (two distinct ones in
  particular), each saving only recordings tagged with its own id, over a store that is
  absent or readable and whose calls succeed: a load by a user who saved returns exactly
  what that user saved last, and the persisted recordings of a user who did not save are
  the ones that were there before. Users are told apart by their ids.
\<close>

theorem save_load_isolation:
  assumes "get_ok p" and "set_ok p"
    and "audioRecordings s \<noteq> Some Unparsable"
    and "\<forall>(u, rs) \<in> set ops. \<forall>r \<in> set rs. userId r = id_user u"
  shows "(lastSavedBy (id_user v) ops = Some mine \<longrightarrow> loadForUser p v (saveAll p ops s) = mine)
       \<and> (lastSavedBy (id_user v) ops = None \<longrightarrow>
            persistedFor v (saveAll p ops s) = persistedFor v s)"
proof (intro conjI impI)
  assume last: "lastSavedBy (id_user v) ops = Some mine"
  then have "ops \<noteq> []" by auto
  from saveAll_readable [OF assms(1,2,3) this] obtain xs where
    "audioRecordings (saveAll p ops s) = Some (Json xs)" by blast
  from loadForUser_readable [OF assms(1) this]
  show "loadForUser p v (saveAll p ops s) = mine"
    using persistedFor_saveAll [OF assms(1-4), of v] last by simp
next
  assume "lastSavedBy (id_user v) ops = None"
  then show "persistedFor v (saveAll p ops s) = persistedFor v s"
    using persistedFor_saveAll [OF assms(1-4), of v] by simp
qed

theorem save_load_isolation_witness:
  "get_ok allOk \<and> set_ok allOk \<and> audioRecordings signedIn \<noteq> Some Unparsable
   \<and> userId take1 = id_user alice \<and> userId take2 = id_user alice
   \<and> userId theirs = id_user bob \<and> id_user alice \<noteq> id_user bob
   \<and> lastSavedBy (id_user alice) [(alice, [take1]), (bob, [theirs]), (alice, [take1, take2])]
       = Some [take1, take2]
   \<and> loadForUser allOk alice
        (saveAll allOk [(alice, [take1]), (bob, [theirs]), (alice, [take1, take2])] signedIn)
       = [take1, take2]"
proof -
  have hyps: "get_ok allOk" "set_ok allOk" "audioRecordings signedIn \<noteq> Some Unparsable"
    "\<forall>(u, rs) \<in> set [(alice, [take1]), (bob, [theirs]), (alice, [take1, take2])].
         \<forall>r \<in> set rs. userId r = id_user u"
    by (simp_all add: allOk_def signedIn_def startup_def alice_def bob_def take1_def take2_def
        theirs_def)
  have last: "lastSavedBy (id_user alice)
      [(alice, [take1]), (bob, [theirs]), (alice, [take1, take2])] = Some [take1, take2]"
    by (simp add: alice_def bob_def)
  have tags: "userId take1 = id_user alice" "userId take2 = id_user alice"
    "userId theirs = id_user bob" "id_user alice \<noteq> id_user bob"
    by (simp_all add: alice_def bob_def take1_def take2_def theirs_def)
  from save_load_isolation [OF hyps, of alice "[take1, take2]"] last hyps(1-3) tags
  show ?thesis by simp
qed

section \<open>Stopping a capture\<close>

lemma saveRecordings_readable:
  assumes "get_ok p" "set_ok p" "audioRecordings s \<noteq> Some Unparsable"
  shows "saveRecordings p rs s =
     Inr (s\<lparr>calls := calls s @ [GetItem RECORDINGS_STORAGE_KEY, SetItem RECORDINGS_STORAGE_KEY],
            audioRecordings :=
              Some (Json (filter (\<lambda>r. \<not> ownedBy (user s) r) (entries (audioRecordings s)) @ rs))\<rparr>)"
proof (cases "audioRecordings s")
  case None
  with assms show ?thesis
    by (simp add: saveRecordings_def saveRecordings_try_def
        getItem_recordings_def setItem_recordings_def await_def andThen_def called_def)
next
  case (Some t)
  with assms show ?thesis
    by (cases t)
       (simp_all add: saveRecordings_def saveRecordings_try_def
          getItem_recordings_def setItem_recordings_def await_def andThen_def called_def)
qed

lemma show_nat_now: "show_nat 1700000000000 = ''1700000000000''"
  by (simp add: show_nat.simps)

lemma show_nat_1: "show_nat (Suc 0) = ''1''"
  by (simp add: show_nat.simps)

text \<open>
  What \<open>stopRecording\<close> does from a capture in progress when every call succeeds: the
  handle is finalized, one recording is appended, the catalog is persisted and the
  session is idle again. The audio mode is not among the fields it changes.
\<close>

lemma stopRecording_appends:
  assumes "currentRecording s = Some h" and "user s = Some u"
    and "stop_unload_ok p" and "capture_uri p = Some u1" and "u1 \<noteq> []" and "get_status_ok p"
    and "get_ok p" and "set_ok p" and "audioRecordings s \<noteq> Some Unparsable"
  shows "stopRecording p s =
     s\<lparr>recordings := recordings s @ [newRecording p u u1 (length (recordings s))],
       currentRecording := None, isRecording := False,
       captures := captures s - {h},
       audioRecordings :=
         Some (Json (filter (\<lambda>r. \<not> ownedBy (user s) r) (entries (audioRecordings s))
                     @ recordings s @ [newRecording p u u1 (length (recordings s))])),
       calls := calls s @ [StopAndUnload h, GetStatus h,
                           GetItem RECORDINGS_STORAGE_KEY, SetItem RECORDINGS_STORAGE_KEY]\<rparr>"
  using assms
  by (simp add: stopRecording_def stopRecording_try_def stopAndUnloadAsync_def getStatusAsync_def
      await_def andThen_def called_def saveRecordings_readable Let_def)

lemma start_then_stop:
  "stopRecording allOk (startRecording allOk signedIn) =
     signedIn\<lparr>recordings := [take1], audioRecordings := Some (Json [take1]),
        fresh := 1,
        mode := \<lparr>allowsRecordingIOS = True, playsInSilentModeIOS = True\<rparr>,
        calls := [RequestPermissions, SetAudioMode True True, Prepare 0, Start 0,
                  StopAndUnload 0, GetStatus 0,
                  GetItem ''audioRecordings'', SetItem ''audioRecordings'']\<rparr>"
  by (simp add: ops prim newRecording_def show_nat_now show_nat_1 Let_def)

text \<open>
  C2. Alice, signed in over an empty catalog, starts a capture and stops it after
  1500 ms, every platform call succeeding. The capture is finalized, exactly one
  recording is appended, with her id, the measured 1500 ms and the title
  \<open>Recording 1\<close>; it is persisted and the session is idle. But the audio mode is not
  restored: \<open>stopRecording\<close> makes no \<open>setAudioModeAsync\<close> call, and the device stays in
  the recording mode that \<open>startRecording\<close> set.
\<close>

theorem stopRecording_leaves_recording_mode:
  "recordings (stopRecording allOk (startRecording allOk signedIn)) = [take1]
   \<and> title take1 = ''Recording 1'' \<and> duration take1 = 1500 \<and> userId take1 = id_user alice
   \<and> audioRecordings (stopRecording allOk (startRecording allOk signedIn)) = Some (Json [take1])
   \<and> captureIdle (stopRecording allOk (startRecording allOk signedIn))
   \<and> captures (stopRecording allOk (startRecording allOk signedIn)) = {}
   \<and> mode signedIn = \<lparr>allowsRecordingIOS = False, playsInSilentModeIOS = False\<rparr>
   \<and> mode (stopRecording allOk (startRecording allOk signedIn))
       = \<lparr>allowsRecordingIOS = True, playsInSilentModeIOS = True\<rparr>
   \<and> calls (stopRecording allOk (startRecording allOk signedIn))
       = [RequestPermissions, SetAudioMode True True, Prepare 0, Start 0,
          StopAndUnload 0, GetStatus 0, GetItem ''audioRecordings'', SetItem ''audioRecordings'']"
  by (simp add: start_then_stop)
     (simp add: signedIn_def startup_def take1_def alice_def captureIdle_def)

section \<open>A catalog carried into another user's session\<close>

lemma show_nat_later:
  "show_nat 1700000003000 = ''1700000003000''" "show_nat 1700000005000 = ''1700000005000''"
  "show_nat (Suc (Suc 0)) = ''2''"
  by (simp_all add: show_nat.simps)

lemma carolSignedIn_eval:
  "carolSignedIn =
     signedIn\<lparr>user := Some carol, recordings := [take1],
        userToken := Some ''dummy-token'', userData := Some (Json carol),
        audioRecordings := Some (Json [take1]), fresh := 1,
        mode := \<lparr>allowsRecordingIOS = True, playsInSilentModeIOS = True\<rparr>,
        alerts := [(''Error'', ''Failed to load recordings'')],
        calls := [RequestPermissions, SetAudioMode True True, Prepare 0, Start 0,
                  StopAndUnload 0, GetStatus 0,
                  GetItem ''audioRecordings'', SetItem ''audioRecordings'',
                  SecureDelete ''userToken'', RemoveItem ''userData'', Navigate ''/login'',
                  SecureSet ''userToken'' ''dummy-token'', SetItem ''userData'',
                  GetItem ''audioRecordings'']\<rparr>"
  unfolding carolSignedIn_def aliceRecorded_def start_then_stop
  by (simp add: register_def logout_def onUserChange_def loadRecordings_def
      loadRecordings_try_def settled_def atRegister_def carol_def prim show_nat_later Let_def)

lemma carolRecorded_eval:
  "recordings carolRecorded = [take1, carols]
   \<and> audioRecordings carolRecorded = Some (Json [take1, take1, carols])
   \<and> user carolRecorded = Some carol \<and> captureIdle carolRecorded"
  unfolding carolRecorded_def carolSignedIn_eval
  by (simp add: startRecording_def startRecording_try_def stopRecording_def stopRecording_try_def
      saveRecordings_def saveRecordings_try_def newRecording_def secondCapture_def
      carol_def carols_def take1_def take2_def prim show_nat_later Let_def)

text \<open>
  C1, as stated, fails. In the run above Carol's catalog still holds Alice's take when
  she records, so her save writes Alice's take next to her own: afterwards Alice's load
  returns her take twice, not the one sequence she saved, and Carol's load returns less
  than she saved. The same holds of the two saves taken alone.
\<close>

theorem foreign_entries_break_round_trip:
  "recordings aliceRecorded = [take1]
   \<and> audioRecordings aliceRecorded = Some (Json [take1])
   \<and> recordings carolRecorded = [take1, carols]
   \<and> audioRecordings carolRecorded = Some (Json [take1, take1, carols])
   \<and> loadForUser allOk alice carolRecorded = [take1, take1]
   \<and> loadForUser allOk carol carolRecorded = [carols]
   \<and> lastSavedBy (id_user alice) [(alice, [take1]), (carol, [take1, carols])] = Some [take1]
   \<and> lastSavedBy (id_user carol) [(alice, [take1]), (carol, [take1, carols])]
       = Some [take1, carols]
   \<and> loadForUser allOk alice (saveAll allOk [(alice, [take1]), (carol, [take1, carols])] signedIn)
       = [take1, take1]
   \<and> loadForUser allOk carol (saveAll allOk [(alice, [take1]), (carol, [take1, carols])] signedIn)
       = [carols]"
proof -
  have ok: "get_ok allOk" "set_ok allOk" by (simp_all add: allOk_def)
  have tags: "userId take1 = id_user alice" "userId carols = id_user carol"
    "id_user alice \<noteq> id_user carol"
    by (simp_all add: alice_def carol_def carols_def take1_def take2_def)
  from carolRecorded_eval have blob1: "audioRecordings carolRecorded = Some (Json [take1, take1, carols])"
    by simp
  have run: "loadForUser allOk alice carolRecorded = [take1, take1]"
    "loadForUser allOk carol carolRecorded = [carols]"
    using tags
    by (simp_all add: loadForUser_readable [OF ok(1) blob1] persistedFor_def blob1 ownedBy_Some)
  have first: "recordings aliceRecorded = [take1]"
    "audioRecordings aliceRecorded = Some (Json [take1])"
    by (simp_all add: aliceRecorded_def start_then_stop)
  have last: "lastSavedBy (id_user alice) [(alice, [take1]), (carol, [take1, carols])] = Some [take1]"
    "lastSavedBy (id_user carol) [(alice, [take1]), (carol, [take1, carols])] = Some [take1, carols]"
    using tags by simp_all
  have readable: "audioRecordings signedIn \<noteq> Some Unparsable"
    by (simp add: signedIn_def startup_def)
  have empty: "entries (audioRecordings signedIn) = []"
    by (simp add: signedIn_def startup_def)
  have blob2: "audioRecordings (saveAll allOk [(alice, [take1]), (carol, [take1, carols])] signedIn)
      = Some (Json [take1, take1, carols])"
    using tags
    by (simp add: saveForUser_blob [OF ok readable] settled_def)
       (simp add: saveForUser_blob [OF ok] empty ownedBy_Some)
  have seq: "loadForUser allOk alice (saveAll allOk [(alice, [take1]), (carol, [take1, carols])] signedIn)
       = [take1, take1]"
    "loadForUser allOk carol (saveAll allOk [(alice, [take1]), (carol, [take1, carols])] signedIn)
       = [carols]"
    using tags
    by (simp_all add: loadForUser_readable [OF ok(1) blob2] persistedFor_def blob2 ownedBy_Some
        del: saveAll.simps)
  from run first last seq carolRecorded_eval show ?thesis by simp
qed

section \<open>At most one playback\<close>

lemma stopCurrent_cases:
  "stopCurrent p h s =
     (if \<not> sound_stop_ok p then Inl (DeviceFailure, s\<lparr>calls := calls s @ [SoundStop h]\<rparr>)
      else if \<not> sound_unload_ok p then
        Inl (DeviceFailure, s\<lparr>calls := calls s @ [SoundStop h, SoundUnload h]\<rparr>)
      else Inr (s\<lparr>calls := calls s @ [SoundStop h, SoundUnload h], sounds := sounds s - {h}\<rparr>))"
  by (simp add: stopCurrent_def stopAsync_def unloadAsync_def await_def andThen_def called_def)

text \<open>However \<open>playRecording\<close> ends, it keeps the open sound handles tracked.\<close>

lemma playRecording_tracked:
  assumes "tracked s"
  shows "tracked (playRecording p rid s)"
  using assms
  by (cases "currentSound s"; cases "find (\<lambda>r. id_rec r = rid) (recordings s)")
     (auto simp: tracked_def playRecording_def playRecording_try_def stopCurrent_cases
        createAsync_def await_def andThen_def called_def alert_def)

lemma playRecording_success:
  assumes "tracked s"
    and "find (\<lambda>r. id_rec r = rid) (recordings s) = Some r"
    and "sound_stop_ok p" "sound_unload_ok p" "sound_create_ok p"
  shows "playRecording p rid s =
     s\<lparr>currentSound := Some (fresh s), currentPlayingId := Some rid, isPlaying := True,
       sounds := {fresh s}, fresh := Suc (fresh s),
       calls := calls s
                @ (case currentSound s of None \<Rightarrow> [] | Some h \<Rightarrow> [SoundStop h, SoundUnload h])
                @ [SoundCreate (uri r) (fresh s)]\<rparr>"
proof (cases "currentSound s")
  case None
  with assms have "sounds s = {}" by (simp add: tracked_def)
  with None assms show ?thesis
    by (simp add: playRecording_def playRecording_try_def createAsync_def await_def
        andThen_def called_def)
next
  case (Some h)
  with assms have gone: "sounds s - {h} = {}" by (simp add: tracked_def)
  from Some assms show ?thesis
    by (simp add: playRecording_def playRecording_try_def stopCurrent_cases createAsync_def
        await_def andThen_def called_def gone)
qed

text \<open>Replaying the calls of a successful play, one by one, never opens a second handle.\<close>

lemma replay_play:
  assumes "S \<subseteq> set_option cur"
  shows "card (fold openAfter
           (take k ((case cur of None \<Rightarrow> [] | Some h \<Rightarrow> [SoundStop h, SoundUnload h])
                    @ [SoundCreate u n])) S) \<le> 1"
proof (cases cur)
  case None
  with assms have "S = {}" by simp
  with None show ?thesis by (cases k) simp_all
next
  case (Some h)
  with assms have S: "S = {} \<or> S = {h}" by auto
  have k: "k = 0 \<or> k = 1 \<or> k = 2 \<or> k \<ge> 3" by arith
  show ?thesis using S k Some
    by (auto simp: numeral_2_eq_2 numeral_3_eq_3 take_Cons')
qed

lemma first_play: "playRecording allOk ''1700000000000'' withTwo = nowPlaying"
  by (simp add: playRecording_def playRecording_try_def createAsync_def await_def andThen_def
      called_def withTwo_def nowPlaying_def signedIn_def startup_def allOk_def take1_def take2_def)

text \<open>
  C3, as stated, fails. A second tap served by the handler of the render that saw
  nothing playing: the first play has opened sound 0, the handler still reads
  \<open>currentSound\<close> as null, skips the stop and opens sound 1 beside it.
\<close>

theorem second_tap_opens_second_sound:
  "playRecording allOk ''1700000000000'' withTwo = nowPlaying
   \<and> sounds nowPlaying = {0}
   \<and> currentSound (seenFrom withTwo nowPlaying) = None
   \<and> sounds (playRecording allOk ''1700000005000'' (seenFrom withTwo nowPlaying)) = {0, 1}
   \<and> card (sounds (playRecording allOk ''1700000005000'' (seenFrom withTwo nowPlaying))) = 2
   \<and> currentSound (playRecording allOk ''1700000005000'' (seenFrom withTwo nowPlaying)) = Some 1
   \<and> calls (playRecording allOk ''1700000005000'' (seenFrom withTwo nowPlaying))
       = [SoundCreate ''file:///cache/recording-1.m4a'' 0,
          SoundCreate ''file:///cache/recording-2.m4a'' 1]"
  by (simp add: first_play)
     (simp add: playRecording_def playRecording_try_def createAsync_def await_def andThen_def
        called_def seenFrom_def withTwo_def nowPlaying_def signedIn_def startup_def allOk_def
        take1_def take2_def insert_commute)

text \<open>
  C3, amended. From a state in which every open sound handle is the one in
  \<open>currentSound\<close>, \<open>playRecording\<close> ends with at most one open sound handle, again the
  one in \<open>currentSound\<close>, whatever the platform answers. When the id is in the catalog
  and the device calls succeed, the one open handle is the new one and the session plays
  the requested id; a handle that was current is stopped and unloaded before the new one
  is created, and after no prefix of these calls are two handles open.
\<close>

theorem playRecording_one_sound:
  assumes "sounds s \<subseteq> set_option (currentSound s)"
  shows "card (sounds (playRecording p rid s)) \<le> 1
     \<and> sounds (playRecording p rid s) \<subseteq> set_option (currentSound (playRecording p rid s))
     \<and> (find (\<lambda>r. id_rec r = rid) (recordings s) = Some r
          \<and> sound_stop_ok p \<and> sound_unload_ok p \<and> sound_create_ok p \<longrightarrow>
         sounds (playRecording p rid s) = {fresh s}
         \<and> currentSound (playRecording p rid s) = Some (fresh s)
         \<and> currentPlayingId (playRecording p rid s) = Some rid
         \<and> isPlaying (playRecording p rid s)
         \<and> alerts (playRecording p rid s) = alerts s
         \<and> calls (playRecording p rid s) =
             calls s
             @ (case currentSound s of None \<Rightarrow> [] | Some h \<Rightarrow> [SoundStop h, SoundUnload h])
             @ [SoundCreate (uri r) (fresh s)]
         \<and> (\<forall>k. card (fold openAfter
                (take k ((case currentSound s of None \<Rightarrow> []
                          | Some h \<Rightarrow> [SoundStop h, SoundUnload h])
                         @ [SoundCreate (uri r) (fresh s)])) (sounds s)) \<le> 1))"
proof -
  have t: "tracked s" using assms by (simp add: tracked_def)
  have inv: "sounds (playRecording p rid s) \<subseteq> set_option (currentSound (playRecording p rid s))"
    using playRecording_tracked [OF t, of p rid] by (simp add: tracked_def)
  have "card (sounds (playRecording p rid s))
      \<le> card (set_option (currentSound (playRecording p rid s)))"
    by (rule card_mono [OF _ inv]) simp
  also have "\<dots> \<le> 1" by (cases "currentSound (playRecording p rid s)") simp_all
  finally have one: "card (sounds (playRecording p rid s)) \<le> 1" .
  show ?thesis
    using one inv replay_play [OF assms]
    by (auto simp: playRecording_success [OF t])
qed

theorem playRecording_one_sound_witness:
  "sounds nowPlaying \<subseteq> set_option (currentSound nowPlaying)
   \<and> find (\<lambda>r. id_rec r = ''1700000005000'') (recordings nowPlaying) = Some take2
   \<and> sound_stop_ok allOk \<and> sound_unload_ok allOk \<and> sound_create_ok allOk
   \<and> sounds (playRecording allOk ''1700000005000'' nowPlaying) = {1}
   \<and> currentSound (playRecording allOk ''1700000005000'' nowPlaying) = Some 1
   \<and> currentPlayingId (playRecording allOk ''1700000005000'' nowPlaying) = Some ''1700000005000''
   \<and> calls (playRecording allOk ''1700000005000'' nowPlaying) =
       [SoundCreate ''file:///cache/recording-1.m4a'' 0, SoundStop 0, SoundUnload 0,
        SoundCreate ''file:///cache/recording-2.m4a'' 1]"
proof -
  have inv: "sounds nowPlaying \<subseteq> set_option (currentSound nowPlaying)"
    by (simp add: nowPlaying_def)
  have found: "find (\<lambda>r. id_rec r = ''1700000005000'') (recordings nowPlaying) = Some take2"
    by (simp add: nowPlaying_def take1_def take2_def)
  have ok: "sound_stop_ok allOk \<and> sound_unload_ok allOk \<and> sound_create_ok allOk"
    by (simp add: allOk_def)
  from playRecording_one_sound [OF inv, of allOk "''1700000005000''" take2] found ok
  show ?thesis
    by (simp add: nowPlaying_def take2_def)
qed

section \<open>Deleting the recording that is playing\<close>

lemma stopPlaying_success:
  assumes "currentSound s = Some h" "sound_stop_ok p" "sound_unload_ok p"
  shows "stopPlaying p s =
     s\<lparr>currentSound := None, currentPlayingId := None, isPlaying := False,
       sounds := sounds s - {h}, calls := calls s @ [SoundStop h, SoundUnload h]\<rparr>"
  using assms by (simp add: stopPlaying_def stopPlaying_try_def stopCurrent_cases andThen_def)

lemma find_filter_None: "find (\<lambda>r. id_rec r = rid) (filter (\<lambda>r. id_rec r \<noteq> rid) xs) = None"
  by (simp add: find_None_iff)

lemma find_merged_None:
  "find (\<lambda>r. id_rec r = rid)
     (filter (ownedBy u) (filter (\<lambda>r. \<not> ownedBy u r) xs @ filter (\<lambda>r. id_rec r \<noteq> rid) ys)) = None"
  by (auto simp: find_None_iff)

text \<open>
  C4, as stated, fails. When the stop of the playing sound is rejected, \<open>stopPlaying\<close>
  catches it and \<open>deleteRecording\<close> goes on: the payload and the entry are deleted while
  the handle is open and the session still plays the id. And after a logout the persisted
  catalog keeps the entry that was deleted from memory.
\<close>

theorem delete_proceeds_after_rejected_stop:
  "currentPlayingId nowPlaying = Some ''1700000000000'' \<and> currentSound nowPlaying = Some 0
   \<and> calls (deleteRecording (allOk\<lparr>sound_stop_ok := False\<rparr>) ''1700000000000'' nowPlaying)
       = [SoundCreate ''file:///cache/recording-1.m4a'' 0, SoundStop 0,
          FileDelete ''file:///cache/recording-1.m4a'' True,
          GetItem ''audioRecordings'', SetItem ''audioRecordings'']
   \<and> sounds (deleteRecording (allOk\<lparr>sound_stop_ok := False\<rparr>) ''1700000000000'' nowPlaying) = {0}
   \<and> currentSound (deleteRecording (allOk\<lparr>sound_stop_ok := False\<rparr>) ''1700000000000'' nowPlaying)
       = Some 0
   \<and> currentPlayingId (deleteRecording (allOk\<lparr>sound_stop_ok := False\<rparr>) ''1700000000000'' nowPlaying)
       = Some ''1700000000000''
   \<and> recordings (deleteRecording (allOk\<lparr>sound_stop_ok := False\<rparr>) ''1700000000000'' nowPlaying)
       = [take2]
   \<and> alerts (deleteRecording (allOk\<lparr>sound_stop_ok := False\<rparr>) ''1700000000000'' nowPlaying)
       = [(''Error'', ''Failed to stop playback'')]
   \<and> user (settled (logout allOk nowPlaying)) = None
   \<and> audioRecordings (deleteRecording allOk ''1700000000000'' (settled (logout allOk nowPlaying)))
       = Some (Json [theirs, take1, take2, take2])
   \<and> id_rec take1 = ''1700000000000''"
  by (simp add: ops prim take1_def take2_def theirs_def settled_def Let_def)

text \<open>
  C4, amended. Deleting the recording that is playing on the handle in \<open>currentSound\<close>,
  when the platform calls succeed and the store is readable: the calls made are, in this
  order, stop and unload of the sound handle, the idempotent delete of the audio payload,
  and the read and write of the persisted catalog. Afterwards playback is idle, the
  handle is closed and the catalog in memory does not contain the id; the persisted
  catalog is the other users' entries followed by the catalog in memory, so it does not
  contain the id either when every persisted entry with that id was the current user's.
\<close>

theorem deleteRecording_while_playing:
  assumes "currentPlayingId s = Some rid" and "currentSound s = Some h"
    and "find (\<lambda>r. id_rec r = rid) (recordings s) = Some r"
    and "sound_stop_ok p" and "sound_unload_ok p" and "file_delete_ok p"
    and "get_ok p" and "set_ok p" and "audioRecordings s \<noteq> Some Unparsable"
  shows "calls (deleteRecording p rid s) =
           calls s @ [SoundStop h, SoundUnload h, FileDelete (uri r) True,
                      GetItem RECORDINGS_STORAGE_KEY, SetItem RECORDINGS_STORAGE_KEY]
     \<and> playbackIdle (deleteRecording p rid s)
     \<and> sounds (deleteRecording p rid s) = sounds s - {h}
     \<and> recordings (deleteRecording p rid s) = filter (\<lambda>r. id_rec r \<noteq> rid) (recordings s)
     \<and> find (\<lambda>r. id_rec r = rid) (recordings (deleteRecording p rid s)) = None
     \<and> audioRecordings (deleteRecording p rid s) =
         Some (Json (filter (\<lambda>r. \<not> ownedBy (user s) r) (entries (audioRecordings s))
                     @ filter (\<lambda>r. id_rec r \<noteq> rid) (recordings s)))
     \<and> ((\<forall>r' \<in> set (entries (audioRecordings s)). id_rec r' = rid \<longrightarrow> ownedBy (user s) r') \<longrightarrow>
          find (\<lambda>r. id_rec r = rid) (entries (audioRecordings (deleteRecording p rid s))) = None)
     \<and> alerts (deleteRecording p rid s) = alerts s"
proof -
  have res: "deleteRecording p rid s =
      s\<lparr>currentSound := None, currentPlayingId := None, isPlaying := False,
        sounds := sounds s - {h},
        recordings := filter (\<lambda>r. id_rec r \<noteq> rid) (recordings s),
        calls := calls s @ [SoundStop h, SoundUnload h, FileDelete (uri r) True,
                      GetItem RECORDINGS_STORAGE_KEY, SetItem RECORDINGS_STORAGE_KEY],
        audioRecordings :=
          Some (Json (filter (\<lambda>r. \<not> ownedBy (user s) r) (entries (audioRecordings s))
                     @ filter (\<lambda>r. id_rec r \<noteq> rid) (recordings s)))\<rparr>"
    using assms
    by (simp add: deleteRecording_def deleteRecording_try_def stopPlaying_success
        deleteAsync_def await_def andThen_def called_def saveRecordings_readable Let_def)
  have gone: "(\<forall>r' \<in> set xs. id_rec r' = rid \<longrightarrow> ownedBy u r') \<longrightarrow>
      find (\<lambda>r. id_rec r = rid)
        (filter (\<lambda>r. \<not> ownedBy u r) xs @ filter (\<lambda>r. id_rec r \<noteq> rid) ys) = None" for xs ys u
    by (auto simp: find_None_iff)
  show ?thesis
    using gone [of "entries (audioRecordings s)" "user s" "recordings s"]
    by (simp add: res playbackIdle_def find_filter_None del: filter_append)
qed

theorem deleteRecording_while_playing_witness:
  "currentPlayingId nowPlaying = Some ''1700000000000'' \<and> currentSound nowPlaying = Some 0
   \<and> find (\<lambda>r. id_rec r = ''1700000000000'') (recordings nowPlaying) = Some take1
   \<and> sound_stop_ok allOk \<and> sound_unload_ok allOk \<and> file_delete_ok allOk
   \<and> get_ok allOk \<and> set_ok allOk \<and> audioRecordings nowPlaying \<noteq> Some Unparsable
   \<and> entries (audioRecordings nowPlaying) = [theirs, take1, take2]
   \<and> id_rec theirs \<noteq> ''1700000000000'' \<and> ownedBy (user nowPlaying) take1
   \<and> id_rec take2 \<noteq> ''1700000000000''
   \<and> calls (deleteRecording allOk ''1700000000000'' nowPlaying) =
       [SoundCreate ''file:///cache/recording-1.m4a'' 0, SoundStop 0, SoundUnload 0,
        FileDelete ''file:///cache/recording-1.m4a'' True,
        GetItem ''audioRecordings'', SetItem ''audioRecordings'']
   \<and> recordings (deleteRecording allOk ''1700000000000'' nowPlaying) = [take2]
   \<and> sounds (deleteRecording allOk ''1700000000000'' nowPlaying) = {}
   \<and> audioRecordings (deleteRecording allOk ''1700000000000'' nowPlaying)
       = Some (Json [theirs, take2])
   \<and> find (\<lambda>r. id_rec r = ''1700000000000'')
         (entries (audioRecordings (deleteRecording allOk ''1700000000000'' nowPlaying))) = None"
proof -
  have hyps: "currentPlayingId nowPlaying = Some ''1700000000000''"
    "currentSound nowPlaying = Some 0"
    "find (\<lambda>r. id_rec r = ''1700000000000'') (recordings nowPlaying) = Some take1"
    "sound_stop_ok allOk" "sound_unload_ok allOk" "file_delete_ok allOk"
    "get_ok allOk" "set_ok allOk" "audioRecordings nowPlaying \<noteq> Some Unparsable"
    by (simp_all add: nowPlaying_def allOk_def take1_def)
  have blob: "entries (audioRecordings nowPlaying) = [theirs, take1, take2]"
    "id_rec theirs \<noteq> ''1700000000000''" "ownedBy (user nowPlaying) take1"
    "id_rec take2 \<noteq> ''1700000000000''"
    by (simp_all add: nowPlaying_def signedIn_def ownedBy_def alice_def take1_def take2_def
        theirs_def)
  have others: "filter (\<lambda>r. \<not> ownedBy (user nowPlaying) r) [theirs, take1, take2] = [theirs]"
    by (simp add: nowPlaying_def signedIn_def ownedBy_def alice_def take1_def take2_def
        theirs_def)
  have mem: "filter (\<lambda>r. id_rec r \<noteq> ''1700000000000'') (recordings nowPlaying) = [take2]"
    by (simp add: nowPlaying_def take1_def take2_def)
  have mine: "\<forall>r' \<in> set (entries (audioRecordings nowPlaying)).
      id_rec r' = ''1700000000000'' \<longrightarrow> ownedBy (user nowPlaying) r'"
    using blob by simp
  from deleteRecording_while_playing [OF hyps] mine
  have "calls (deleteRecording allOk ''1700000000000'' nowPlaying) =
           calls nowPlaying @ [SoundStop 0, SoundUnload 0, FileDelete (uri take1) True,
                      GetItem RECORDINGS_STORAGE_KEY, SetItem RECORDINGS_STORAGE_KEY]"
    "sounds (deleteRecording allOk ''1700000000000'' nowPlaying) = sounds nowPlaying - {0}"
    "recordings (deleteRecording allOk ''1700000000000'' nowPlaying)
       = filter (\<lambda>r. id_rec r \<noteq> ''1700000000000'') (recordings nowPlaying)"
    "audioRecordings (deleteRecording allOk ''1700000000000'' nowPlaying) =
         Some (Json (filter (\<lambda>r. \<not> ownedBy (user nowPlaying) r) (entries (audioRecordings nowPlaying))
                     @ filter (\<lambda>r. id_rec r \<noteq> ''1700000000000'') (recordings nowPlaying)))"
    "find (\<lambda>r. id_rec r = ''1700000000000'')
         (entries (audioRecordings (deleteRecording allOk ''1700000000000'' nowPlaying))) = None"
    by blast+
  then have res: "calls (deleteRecording allOk ''1700000000000'' nowPlaying) =
       [SoundCreate ''file:///cache/recording-1.m4a'' 0, SoundStop 0, SoundUnload 0,
        FileDelete ''file:///cache/recording-1.m4a'' True,
        GetItem ''audioRecordings'', SetItem ''audioRecordings'']"
    "recordings (deleteRecording allOk ''1700000000000'' nowPlaying) = [take2]"
    "sounds (deleteRecording allOk ''1700000000000'' nowPlaying) = {}"
    "audioRecordings (deleteRecording allOk ''1700000000000'' nowPlaying)
       = Some (Json [theirs, take2])"
    "find (\<lambda>r. id_rec r = ''1700000000000'')
         (entries (audioRecordings (deleteRecording allOk ''1700000000000'' nowPlaying))) = None"
    unfolding mem blob(1) others
    by (simp_all add: nowPlaying_def take1_def RECORDINGS_STORAGE_KEY_def)
  from hyps blob res show ?thesis by blast
qed

section \<open>Loading fails soft\<close>

text \<open>
  A run over a persisted catalog that does not parse: the load at mount fails with a
  notice, Alice records one take, and saving it fails, so the take is in memory only.
\<close>

lemma corrupted_run:
  "stopRecording allOk (startRecording allOk (onUserChange allOk corrupted)) =
     corrupted\<lparr>recordings := [take1], currentRecording := Some 0, isRecording := True,
       captures := {}, fresh := 1,
       mode := \<lparr>allowsRecordingIOS = True, playsInSilentModeIOS = True\<rparr>,
       alerts := [(''Error'', ''Failed to load recordings''), (''Error'', ''Failed to stop recording'')],
       calls := [GetItem ''audioRecordings'', RequestPermissions, SetAudioMode True True,
                 Prepare 0, Start 0, StopAndUnload 0, GetStatus 0, GetItem ''audioRecordings'']\<rparr>"
  by (simp add: ops prim corrupted_def newRecording_def show_nat_now show_nat_1 Let_def)

text \<open>
  C6, as stated, fails after that run: the persisted entry is malformed, yet a load for
  Bob does not yield the empty sequence; it leaves Alice's take in the catalog.
\<close>

theorem stale_catalog_after_failed_load:
  "audioRecordings (stopRecording allOk (startRecording allOk (onUserChange allOk corrupted)))
     = Some Unparsable
   \<and> loadForUser allOk bob (stopRecording allOk (startRecording allOk (onUserChange allOk corrupted)))
     = [take1]
   \<and> [take1] \<noteq> []
   \<and> userId take1 \<noteq> id_user bob"
  by (simp add: corrupted_run loadForUser_def)
     (simp add: ops prim corrupted_def)

text \<open>
  C6, amended. A load for a user over a readable entry yields the persisted recordings
  of that user. Over an absent, empty or malformed entry it leaves the catalog as it
  was, so a load into an empty catalog, as at mount, yields the empty sequence; nothing
  is thrown, and the only trace of a malformed entry is the notice.
\<close>

theorem loadRecordings_fail_soft:
  "(get_ok p \<and> audioRecordings s = Some (Json xs) \<longrightarrow>
       loadForUser p u s = filter (\<lambda>r. userId r = id_user u) xs
       \<and> alerts (loadRecordings p (s\<lparr>user := Some u\<rparr>)) = alerts s)
   \<and> (audioRecordings s \<in> {None, Some EmptyText, Some Unparsable} \<longrightarrow>
       loadForUser p u s = recordings s
       \<and> (recordings s = [] \<longrightarrow> loadForUser p u s = []))
   \<and> (get_ok p \<and> audioRecordings s \<in> {None, Some EmptyText} \<longrightarrow>
       loadRecordings p (s\<lparr>user := Some u\<rparr>)
         = s\<lparr>user := Some u, calls := calls s @ [GetItem RECORDINGS_STORAGE_KEY]\<rparr>)
   \<and> (get_ok p \<and> audioRecordings s = Some Unparsable \<longrightarrow>
       loadRecordings p (s\<lparr>user := Some u\<rparr>)
         = s\<lparr>user := Some u, calls := calls s @ [GetItem RECORDINGS_STORAGE_KEY],
             alerts := alerts s @ [(''Error'', ''Failed to load recordings'')]\<rparr>)"
  by (auto simp: loadForUser_def loadRecordings_def loadRecordings_try_def getItem_recordings_def
      await_def andThen_def called_def alert_def ownedBy_Some)


theorem loadRecordings_fail_soft_witness:
  "loadForUser allOk alice nowPlaying = [take1, take2]
   \<and> loadForUser allOk alice signedIn = []
   \<and> loadRecordings allOk (corrupted\<lparr>user := Some alice\<rparr>)
       = corrupted\<lparr>user := Some alice, calls := calls corrupted @ [GetItem RECORDINGS_STORAGE_KEY],
           alerts := alerts corrupted @ [(''Error'', ''Failed to load recordings'')]\<rparr>"
proof -
  have ok: "get_ok allOk" by (simp add: allOk_def)
  have a: "audioRecordings nowPlaying = Some (Json [theirs, take1, take2])"
    by (simp add: nowPlaying_def)
  have b: "audioRecordings signedIn = None" "recordings signedIn = []"
    by (simp_all add: signedIn_def startup_def)
  have c: "audioRecordings corrupted = Some Unparsable"
    by (simp add: corrupted_def startup_def)
  from loadRecordings_fail_soft [of allOk nowPlaying "[theirs, take1, take2]" alice] ok a
  have 1: "loadForUser allOk alice nowPlaying = [take1, take2]"
    by (simp add: alice_def take1_def take2_def theirs_def)
  from loadRecordings_fail_soft [of allOk signedIn "[]" alice] b
  have 2: "loadForUser allOk alice signedIn = []" by simp
  from loadRecordings_fail_soft [of allOk corrupted "[]" alice] ok c
  have 3: "loadRecordings allOk (corrupted\<lparr>user := Some alice\<rparr>)
       = corrupted\<lparr>user := Some alice, calls := calls corrupted @ [GetItem RECORDINGS_STORAGE_KEY],
           alerts := alerts corrupted @ [(''Error'', ''Failed to load recordings'')]\<rparr>"
    by simp
  from 1 2 3 show ?thesis by simp
qed

section \<open>Failures of start, stop and play\<close>








section \<open>Renaming\<close>






section \<open>Login, logout and the probe at start-up\<close>

text \<open>
  C9. For every email and password, when the two store writes succeed, \<open>login\<close> returns
  with the profile built from the email alone (the fixed id, the email, its part before
  the first \<open>@\<close>, the default settings), persisted together with the token. A \<open>logout\<close>
  whose two store calls succeed clears both entries, and the probe of the next start
  then leaves the session unauthenticated, whatever the platform answers, routing to
  \<open>/login\<close> when the token can be read.
\<close>

theorem login_logout_restart:
  assumes "secure_set_ok p1" and "set_ok p1" and "secure_delete_ok p2" and "remove_ok p2"
  shows "login p1 e pw s = Inr (settled (login p1 e pw s))
     \<and> user (settled (login p1 e pw s)) =
         Some \<lparr>id_user = ''user123'', email = e, name = localPart e, settings = defaultSettings\<rparr>
     \<and> userToken (settled (login p1 e pw s)) = Some ''dummy-token''
     \<and> userData (settled (login p1 e pw s)) =
         Some (Json \<lparr>id_user = ''user123'', email = e, name = localPart e,
                     settings = defaultSettings\<rparr>)
     \<and> logout p2 (settled (login p1 e pw s)) = Inr (settled (logout p2 (settled (login p1 e pw s))))
     \<and> userToken (settled (logout p2 (settled (login p1 e pw s)))) = None
     \<and> userData (settled (logout p2 (settled (login p1 e pw s)))) = None
     \<and> Unauthenticated (settled (logout p2 (settled (login p1 e pw s))))
     \<and> Unauthenticated (checkAuthState p3 (restart (settled (logout p2 (settled (login p1 e pw s))))))
     \<and> \<not> loading (checkAuthState p3 (restart (settled (logout p2 (settled (login p1 e pw s))))))
     \<and> (secure_get_ok p3 \<longrightarrow>
          calls (checkAuthState p3 (restart (settled (logout p2 (settled (login p1 e pw s))))))
            = [SecureGet ''userToken'', Navigate ''/login''])"
  using assms
  by (simp add: login_def logout_def checkAuthState_def checkAuthState_try_def settled_def
      setItemAsync_token_def setItem_userData_def deleteItemAsync_token_def removeItem_userData_def
      getItemAsync_token_def replace_route_def restart_def startup_def Unauthenticated_def
      await_def andThen_def called_def Let_def)

theorem login_logout_restart_witness:
  "secure_set_ok allOk \<and> set_ok allOk \<and> secure_delete_ok allOk \<and> remove_ok allOk
   \<and> user (settled (login allOk ''a@x.com'' ''secret'' (startup None None None)))
       = Some \<lparr>id_user = ''user123'', email = ''a@x.com'', name = ''a'', settings = defaultSettings\<rparr>
   \<and> userToken (settled (login allOk ''a@x.com'' ''secret'' (startup None None None)))
       = Some ''dummy-token''
   \<and> Unauthenticated (checkAuthState allOk (restart (settled (logout allOk
        (settled (login allOk ''a@x.com'' ''secret'' (startup None None None)))))))"
proof -
  have hyps: "secure_set_ok allOk" "set_ok allOk" "secure_delete_ok allOk" "remove_ok allOk"
    by (simp_all add: allOk_def)
  have "localPart ''a@x.com'' = ''a''" by (simp add: localPart_def)
  with login_logout_restart [OF hyps, of "''a@x.com''" "''secret''" "startup None None None" allOk]
    hyps
  show ?thesis by simp
qed

end
